theory Spec2Isabelle
  imports Complex_Main "HOL-Library.Multiset" "HOL-Library.Word"
begin

section \<open>The QUADPACK wrapper DQAGP (libcruft/quadpack/dqagp.f)\<close>

text \<open>
  DQAGP is the dimensioning wrapper of the break-point integrator. It initialises the
  output variables, checks the three dimensioning parameters, slices the two work
  arrays and hands over to the driver DQAGPE; afterwards it calls the error handler
  XERROR when the status IER is positive.

  A Fortran INTEGER is modelled as a 32-bit word read in two's complement (\<open>sint\<close>), the
  four-byte default INTEGER: its arithmetic wraps around, and its comparisons are the
  signed ones (\<open><s\<close>). DOUBLE PRECISION values are modelled by the reals they denote; the
  wrapper itself only stores the constant zero and hands all other values through.

  Fortran passes arguments by reference. The variables that DQAGP and DQAGPE both
  write are collected in one record that is passed along and returned.
\<close>

type_synonym INTEGER = "32 word"

record quad_vars =
  RESULT :: real
  ABSERR :: real
  NEVAL :: INTEGER
  IER :: INTEGER
  LAST :: INTEGER
  WORK :: "real list"
  IWORK :: "INTEGER list"

text \<open>
  The integrand is a subroutine \<open>F(X,IERR,RESULT)\<close>: from the abscissa it yields an
  error flag and the function value.
\<close>

type_synonym integrand = "real \<Rightarrow> INTEGER \<times> real"

text \<open>
  The two external routines. DQAGPE receives the scalar arguments, the computed
  \<open>LIMIT\<close> and the start indices \<open>1, L1, L2, L3, L4\<close> of the slices of WORK and
  \<open>1, L1, L2\<close> of the slices of IWORK; the model passes the indices \<open>L1 .. L4\<close> and the
  arrays themselves (inside the record). XERROR is not part of the routine; each call
  of it is recorded with its four arguments, and so is each call of DQAGPE. XERROR is
  taken to return to DQAGP and to leave its arguments as they are.
\<close>

type_synonym driver =
  "integrand \<Rightarrow> real \<Rightarrow> real \<Rightarrow> INTEGER \<Rightarrow> real list \<Rightarrow> real \<Rightarrow> real \<Rightarrow> INTEGER
     \<Rightarrow> INTEGER \<times> INTEGER \<times> INTEGER \<times> INTEGER \<Rightarrow> quad_vars \<Rightarrow> quad_vars"

datatype call =
  CALL_DQAGPE INTEGER "INTEGER \<times> INTEGER \<times> INTEGER \<times> INTEGER"
| CALL_XERROR string INTEGER INTEGER "INTEGER option"

text \<open>Fortran's integer division truncates towards zero.\<close>

definition fortran_div :: "int \<Rightarrow> int \<Rightarrow> int" where
  "fortran_div i j = sgn i * sgn j * (\<bar>i\<bar> div \<bar>j\<bar>)"

text \<open>
  Line 203: the condition under which the routine jumps to label 10. The products and
  differences are those of the machine and wrap around.
\<close>

definition dimension_check_fails :: "INTEGER \<Rightarrow> INTEGER \<Rightarrow> INTEGER \<Rightarrow> bool" where
  "dimension_check_fails LENIW LENW NPTS2 \<longleftrightarrow>
     LENIW <s 3 * NPTS2 - 2 \<or> LENW <s LENIW * 2 - NPTS2 \<or> NPTS2 <s 2"

text \<open>Line 208. The quotient of a representable value by two is representable.\<close>

definition LIMIT :: "INTEGER \<Rightarrow> INTEGER \<Rightarrow> INTEGER" where
  "LIMIT LENIW NPTS2 = word_of_int (fortran_div (sint (LENIW - NPTS2)) 2)"

text \<open>Lines 209 to 212: the start indices of the slices.\<close>

definition slices :: "INTEGER \<Rightarrow> INTEGER \<times> INTEGER \<times> INTEGER \<times> INTEGER" where
  "slices lmt =
     (let L1 = lmt + 1; L2 = lmt + L1; L3 = lmt + L2; L4 = lmt + L3
      in (L1, L2, L3, L4))"

text \<open>
  Lines 221 and 222, the code from label 10 on. The local variable LVL has no value
  when the label is reached by the jump of line 204, hence the option.
\<close>

definition label_10 :: "quad_vars \<Rightarrow> INTEGER option \<Rightarrow> call list" where
  "label_10 v LVL =
     (let LVL' = (if IER v = 6 then Some 1 else LVL)
      in if 0 <s IER v then [CALL_XERROR ''ABNORMAL RETURN FROM DQAGP'' 26 (IER v) LVL']
         else [])"

text \<open>
  The routine. Its result is the final value of the variables together with the
  external calls it made, in order.
\<close>

definition DQAGP ::
  "driver \<Rightarrow> integrand \<Rightarrow> real \<Rightarrow> real \<Rightarrow> INTEGER \<Rightarrow> real list \<Rightarrow> real \<Rightarrow> real
     \<Rightarrow> INTEGER \<Rightarrow> INTEGER \<Rightarrow> quad_vars \<Rightarrow> quad_vars \<times> call list" where
  "DQAGP DQAGPE F A B NPTS2 POINTS EPSABS EPSREL LENIW LENW v =
     (let v1 = v\<lparr>IER := 6, NEVAL := 0, LAST := 0, RESULT := 0, ABSERR := 0\<rparr>
      in if dimension_check_fails LENIW LENW NPTS2 then (v1, label_10 v1 None)
         else
           let lmt = LIMIT LENIW NPTS2;
               v2 = DQAGPE F A B NPTS2 POINTS EPSABS EPSREL lmt (slices lmt) v1
           in (v2, CALL_DQAGPE lmt (slices lmt) # label_10 v2 (Some 0)))"

text \<open>Whether a call of the driver occurs among the recorded calls.\<close>

fun is_driver_call :: "call \<Rightarrow> bool" where
  "is_driver_call (CALL_DQAGPE lmt sl) = True"
| "is_driver_call (CALL_XERROR m n e l) = False"

section \<open>The driver DQAGPE\<close>

text \<open>
  The first \<open>NPTS2-2\<close> elements of POINTS are the break points supplied by the user
  (prologue of DQAGP, lines 42 to 47).
\<close>

definition break_points :: "INTEGER \<Rightarrow> real list \<Rightarrow> real list" where
  "break_points NPTS2 POINTS = take (nat (sint NPTS2 - 2)) POINTS"

text \<open>
  An assignment to the element \<open>i\<close> of a Fortran array, which counts from one. An
  assignment outside the array, to which Fortran gives no meaning, is left out.
\<close>

definition store :: "'a list \<Rightarrow> INTEGER \<Rightarrow> 'a \<Rightarrow> 'a list" where
  "store xs i x =
     (if 1 \<le> sint i \<and> sint i \<le> int (length xs) then xs[nat (sint i - 1) := x] else xs)"

text \<open>
  The adaptive subdivision and extrapolation loop together with the final conversion
  of its state into the output variables, started on the sorted sequence of integration
  limits and break points. It is a parameter of the driver below.
\<close>

type_synonym engine =
  "integrand \<Rightarrow> real \<Rightarrow> real \<Rightarrow> INTEGER \<Rightarrow> real list \<Rightarrow> real \<Rightarrow> real \<Rightarrow> INTEGER
     \<Rightarrow> INTEGER \<times> INTEGER \<times> INTEGER \<times> INTEGER \<Rightarrow> quad_vars \<Rightarrow> quad_vars"

text \<open>
  Modelled from the spec: the accuracy-request validation of the driver DQAGPE (file
  dqagpe.f is not among the sources): the request is invalid "when
  \<open>epsabs <= 0\<close> and \<open>epsrel < max(50*machine_epsilon, 0.5e-28)\<close>". The machine epsilon
  is a parameter.
\<close>

definition invalid_accuracy_request :: "real \<Rightarrow> real \<Rightarrow> real \<Rightarrow> bool" where
  "invalid_accuracy_request epmach EPSABS EPSREL \<longleftrightarrow>
     EPSABS \<le> 0 \<and> EPSREL < max (50 * epmach) (5 / 10 ^ 29)"

text \<open>
  Modelled from the spec: what DQAGPE leaves behind on invalid input, "\<open>IER=6\<close> with zero
  result/error/neval/last". The stores into the work arrays are those the prologue of
  DQAGP lists for this case (lines 117 to 123).
\<close>

definition invalid_input ::
  "real \<Rightarrow> real \<Rightarrow> INTEGER \<times> INTEGER \<times> INTEGER \<times> INTEGER \<Rightarrow> quad_vars \<Rightarrow> quad_vars" where
  "invalid_input A B sl v =
     (case sl of (L1, L2, L3, L4) \<Rightarrow>
        v\<lparr>IER := 6, RESULT := 0, ABSERR := 0, NEVAL := 0, LAST := 0,
          WORK := store (store (store (store (WORK v) 1 A) L1 B) L2 0) L3 0,
          IWORK := store (store (IWORK v) 1 0) L1 0\<rparr>)"

text \<open>
  Modelled from the spec: the driver DQAGPE (file dqagpe.f is not among the sources).
  It validates its input (the number of points is at least two, the break points lie
  within \<open>[a,b]\<close>, the accuracy request is valid) and short-circuits to \<open>IER=6\<close> on a
  violation. Otherwise the break points and the integration limits are merged and
  sorted ascending, and the adaptive loop runs on the sorted sequence.
\<close>

definition DQAGPE_spec :: "real \<Rightarrow> engine \<Rightarrow> driver" where
  "DQAGPE_spec epmach eng F A B NPTS2 POINTS EPSABS EPSREL lmt sl v =
     (let bps = break_points NPTS2 POINTS
      in if NPTS2 <s 2 \<or> list_ex (\<lambda>p. p < A \<or> B < p) bps
            \<or> invalid_accuracy_request epmach EPSABS EPSREL
         then invalid_input A B sl v
         else eng F A B NPTS2 (sort (A # B # bps)) EPSABS EPSREL lmt sl v)"

section \<open>The termination of the adaptive loop\<close>








section \<open>The validator mustBeNonnegative\<close>

text \<open>
  The function \<open>mustBeNonnegative (x)\<close> is the Octave code at lines 394 to 415 of
  libgui/src/octave-qobject.cc. It is modelled on arrays of doubles.

  The elements of an Octave array of doubles: the finite values, the two infinities and
  NaN. An array is given by its elements in column-major order, the order of \<open>x(:)\<close>.
\<close>

datatype octave_double = NegInf | Finite real | PosInf | NaN

text \<open>The comparisons \<open>x >= 0\<close> and \<open>x < 0\<close> on one element; both are false on NaN.\<close>

fun ge_zero :: "octave_double \<Rightarrow> bool" where
  "ge_zero NegInf = False"
| "ge_zero (Finite r) = (0 \<le> r)"
| "ge_zero PosInf = True"
| "ge_zero NaN = False"

fun lt_zero :: "octave_double \<Rightarrow> bool" where
  "lt_zero NegInf = True"
| "lt_zero (Finite r) = (r < 0)"
| "lt_zero PosInf = False"
| "lt_zero NaN = False"

text \<open>\<open>find\<close>: the indices, counted from one, of the true elements.\<close>

definition find_true :: "bool list \<Rightarrow> nat list" where
  "find_true tf = map Suc (filter (\<lambda>i. tf ! i) [0..<length tf])"

text \<open>\<open>x(ix)\<close>: the elements at the given indices, each within the array.\<close>

definition index_by :: "'a list \<Rightarrow> nat list \<Rightarrow> 'a list" where
  "index_by x ix = map (\<lambda>i. x ! (i - 1)) ix"

text \<open>
  The error raised carries the message built by \<open>sprintf\<close>; the model keeps the three
  values that are substituted into it: the label, the number of offending elements, and
  the text of either the offending values or their indices.
\<close>

datatype octave_error =
  must_be_nonnegative_values string nat string
| must_be_nonnegative_indexes string nat string

text \<open>
  The function. The result of \<open>inputname (1)\<close> and the function \<open>mat2str\<close>, on values
  (where \<open>None\<close> stands for an error, caught by the \<open>try\<close>) and on indices, are
  parameters.
\<close>

definition mustBeNonnegative ::
  "string \<Rightarrow> (octave_double list \<Rightarrow> string option) \<Rightarrow> (nat list \<Rightarrow> string) \<Rightarrow> octave_double list
     \<Rightarrow> octave_error + unit" where
  "mustBeNonnegative inputname1 mat2str_values mat2str_indexes x =
     (let tf = map ge_zero x
      in if \<not> list_all (\<lambda>t. t) tf then
           let label = (if inputname1 = [] then ''input'' else inputname1);
               ix_bad = find_true (map Not tf)
           in (case mat2str_values (index_by x ix_bad) of
                 Some txt \<Rightarrow> Inl (must_be_nonnegative_values label (length ix_bad) txt)
               | None \<Rightarrow>
                   Inl (must_be_nonnegative_indexes label (length ix_bad)
                          (mat2str_indexes ix_bad)))
         else Inr ())"

section \<open>Concrete inputs\<close>

text \<open>
  Inputs on which the theorems below are instantiated: variables and work arrays
  holding arbitrary values on entry, the integrand that is constantly one, a driver
  that uses up its capacity, an engine that applies a one-panel rule to the first
  segment, and a loop that stops at its capacity with three records.
\<close>

abbreviation unset :: quad_vars where
  "unset \<equiv> \<lparr>RESULT = 7, ABSERR = 7, NEVAL = 7, IER = 7, LAST = 7,
     WORK = replicate 16 7, IWORK = replicate 10 7\<rparr>"

abbreviation constant_one :: integrand where
  "constant_one \<equiv> (\<lambda>x. (0, 1))"

abbreviation full_driver :: driver where
  "full_driver \<equiv> (\<lambda>F A B N P ea er lmt sl v.
     v\<lparr>IER := 1, NEVAL := 21 * (2 * lmt - 1), LAST := lmt\<rparr>)"

abbreviation panel_engine :: engine where
  "panel_engine \<equiv> (\<lambda>F A B N pts ea er lmt sl v.
     v\<lparr>IER := 0, RESULT := snd (F (pts ! 0)) * (pts ! 1 - pts ! 0), NEVAL := 21 * (N - 1),
       LAST := N - 1\<rparr>)"


section \<open>Machine arithmetic within range\<close>

lemma fortran_div_nonneg: "0 \<le> i \<Longrightarrow> fortran_div i 2 = i div 2"
  by (cases "i = 0") (simp_all add: fortran_div_def)

lemma sint_INTEGER_of_int:
  fixes k :: int
  assumes "- (2 ^ 31) \<le> k" and "k < 2 ^ 31"
  shows "sint (word_of_int k :: INTEGER) = k"
  using assms by (simp add: sint_sbintrunc' signed_take_bit_int_eq_self)

lemma sint_INTEGER_bounds:
  fixes x :: INTEGER
  shows "- (2 ^ 31) \<le> sint x" and "sint x < 2 ^ 31"
  using sint_ge [of x] sint_lt [of x] by simp_all

text \<open>
  The three expressions of lines 203 and 208 have their mathematical value whenever
  that value is representable, whatever happens in between.
\<close>

lemma sint_3N_2:
  fixes N :: INTEGER
  assumes "- (2 ^ 31) \<le> 3 * sint N - 2" and "3 * sint N - 2 < 2 ^ 31"
  shows "sint (3 * N - 2) = 3 * sint N - 2"
proof -
  have "3 * N - 2 = word_of_int (3 * sint N - 2)" by simp
  then show ?thesis using assms by (simp only: sint_INTEGER_of_int)
qed

lemma sint_2L_N:
  fixes L N :: INTEGER
  assumes "- (2 ^ 31) \<le> sint L * 2 - sint N" and "sint L * 2 - sint N < 2 ^ 31"
  shows "sint (L * 2 - N) = sint L * 2 - sint N"
proof -
  have "L * 2 - N = word_of_int (sint L * 2 - sint N)" by simp
  then show ?thesis using assms by (simp only: sint_INTEGER_of_int)
qed

lemma sint_L_N:
  fixes L N :: INTEGER
  assumes "- (2 ^ 31) \<le> sint L - sint N" and "sint L - sint N < 2 ^ 31"
  shows "sint (L - N) = sint L - sint N"
proof -
  have "L - N = word_of_int (sint L - sint N)" by simp
  then show ?thesis using assms by (simp only: sint_INTEGER_of_int)
qed

text \<open>
  A call that meets the three conditions on the integers passes the test of line 203,
  and its capacity is the floor of half the difference.
\<close>

lemma check_passes:
  assumes "3 * sint NPTS2 - 2 \<le> sint LENIW" and "sint LENIW * 2 - sint NPTS2 \<le> sint LENW"
    and "2 \<le> sint NPTS2"
  shows "\<not> dimension_check_fails LENIW LENW NPTS2"
proof -
  have a: "sint (3 * NPTS2 - 2) = 3 * sint NPTS2 - 2"
    using assms sint_INTEGER_bounds [of LENIW] by (intro sint_3N_2) simp_all
  have b: "sint (LENIW * 2 - NPTS2) = sint LENIW * 2 - sint NPTS2"
    using assms sint_INTEGER_bounds [of LENW] by (intro sint_2L_N) simp_all
  show ?thesis
    using assms by (simp add: dimension_check_fails_def word_sless_alt a b)
qed

lemma LIMIT_in_range:
  assumes "3 * sint NPTS2 - 2 \<le> sint LENIW" and "2 \<le> sint NPTS2"
  shows "LIMIT LENIW NPTS2 = word_of_int ((sint LENIW - sint NPTS2) div 2)"
    and "sint (LIMIT LENIW NPTS2) = (sint LENIW - sint NPTS2) div 2"
proof -
  have nonneg: "0 \<le> sint LENIW - sint NPTS2" using assms by arith
  have d: "sint (LENIW - NPTS2) = sint LENIW - sint NPTS2"
    using assms sint_INTEGER_bounds [of LENIW] by (intro sint_L_N) simp_all
  show eq: "LIMIT LENIW NPTS2 = word_of_int ((sint LENIW - sint NPTS2) div 2)"
    by (simp only: LIMIT_def d fortran_div_nonneg [OF nonneg])
  have "- (2 ^ 31) \<le> (sint LENIW - sint NPTS2) div 2"
    using nonneg by (simp add: pos_imp_zdiv_nonneg_iff order_trans [of _ 0])
  moreover have "(sint LENIW - sint NPTS2) div 2 < 2 ^ 31"
    using assms sint_INTEGER_bounds [of LENIW] by arith
  ultimately show "sint (LIMIT LENIW NPTS2) = (sint LENIW - sint NPTS2) div 2"
    by (simp only: eq sint_INTEGER_of_int)
qed


section \<open>Properties of the wrapper\<close>

lemma DQAGP_rejected:
  assumes "dimension_check_fails LENIW LENW NPTS2"
  shows "DQAGP DQAGPE F A B NPTS2 POINTS EPSABS EPSREL LENIW LENW v =
           (v\<lparr>IER := 6, NEVAL := 0, LAST := 0, RESULT := 0, ABSERR := 0\<rparr>,
            [CALL_XERROR ''ABNORMAL RETURN FROM DQAGP'' 26 6 (Some 1)])"
  using assms by (simp add: DQAGP_def label_10_def Let_def word_sless_alt)

lemma DQAGP_accepted:
  assumes "\<not> dimension_check_fails LENIW LENW NPTS2"
  shows "DQAGP DQAGPE F A B NPTS2 POINTS EPSABS EPSREL LENIW LENW v =
           (let lmt = LIMIT LENIW NPTS2;
                v2 = DQAGPE F A B NPTS2 POINTS EPSABS EPSREL lmt (slices lmt)
                       (v\<lparr>IER := 6, NEVAL := 0, LAST := 0, RESULT := 0, ABSERR := 0\<rparr>)
            in (v2, CALL_DQAGPE lmt (slices lmt) # label_10 v2 (Some 0)))"
  using assms by (simp add: DQAGP_def Let_def)




text \<open>
  Claim C2. For every call that passes the dimensioning checks, the maximum number of
  subintervals handed to the driver is \<open>LIMIT = (LENIW - NPTS2) / 2\<close>, the capacity of
  IWORK minus the length of the break-point vector, halved by integer division.
\<close>

theorem DQAGP_limit:
  assumes "3 * sint NPTS2 - 2 \<le> sint LENIW" and "sint LENIW * 2 - sint NPTS2 \<le> sint LENW"
    and "2 \<le> sint NPTS2"
  shows "\<not> dimension_check_fails LENIW LENW NPTS2
       \<and> sint (LIMIT LENIW NPTS2) = (sint LENIW - sint NPTS2) div 2
       \<and> hd (snd (DQAGP DQAGPE F A B NPTS2 POINTS EPSABS EPSREL LENIW LENW v)) =
           CALL_DQAGPE (word_of_int ((sint LENIW - sint NPTS2) div 2))
             (slices (word_of_int ((sint LENIW - sint NPTS2) div 2)))
       \<and> fst (DQAGP DQAGPE F A B NPTS2 POINTS EPSABS EPSREL LENIW LENW v) =
           DQAGPE F A B NPTS2 POINTS EPSABS EPSREL
             (word_of_int ((sint LENIW - sint NPTS2) div 2))
             (slices (word_of_int ((sint LENIW - sint NPTS2) div 2)))
             (v\<lparr>IER := 6, NEVAL := 0, LAST := 0, RESULT := 0, ABSERR := 0\<rparr>)"
proof -
  have pass: "\<not> dimension_check_fails LENIW LENW NPTS2"
    using assms by (rule check_passes)
  have lim: "LIMIT LENIW NPTS2 = word_of_int ((sint LENIW - sint NPTS2) div 2)"
    using assms(1,3) by (rule LIMIT_in_range(1))
  have slim: "sint (LIMIT LENIW NPTS2) = (sint LENIW - sint NPTS2) div 2"
    using assms(1,3) by (rule LIMIT_in_range(2))
  show ?thesis
    using pass slim by (simp add: DQAGP_accepted [OF pass] Let_def lim)
qed

theorem DQAGP_limit_witness:
  "3 * sint (4::INTEGER) - 2 \<le> sint (10::INTEGER)
   \<and> sint (10::INTEGER) * 2 - sint (4::INTEGER) \<le> sint (16::INTEGER)
   \<and> 2 \<le> sint (4::INTEGER)
   \<and> \<not> dimension_check_fails 10 16 4
   \<and> LIMIT 10 4 = 3
   \<and> hd (snd (DQAGP full_driver constant_one 0 1 4 [1/4, 1/2, 0, 0] 0 (1/1000) 10 16 unset)) =
       CALL_DQAGPE 3 (4, 7, 10, 13)
   \<and> LAST (fst (DQAGP full_driver constant_one 0 1 4 [1/4, 1/2, 0, 0] 0 (1/1000) 10 16 unset)) = 3"
  using DQAGP_limit [of 4 10 16 full_driver constant_one 0 1 "[1/4, 1/2, 0, 0]" 0 "1/1000" unset]
  by (simp add: slices_def Let_def LIMIT_def fortran_div_def)

text \<open>
  Claim C3. The entry validation requires \<open>NPTS2 \<ge> 2\<close>: every call with \<open>NPTS2 < 2\<close> is
  rejected with \<open>IER = 6\<close> before any computation (no integrand evaluation, no call of
  the driver). For a call with \<open>NPTS2 \<ge> 2\<close> this part of the check is passed: the check
  fails only through one of the two other conditions, and when those hold as well the
  driver is called.
\<close>

theorem DQAGP_NPTS2_check:
  "(sint NPTS2 < 2 \<longrightarrow>
      IER (fst (DQAGP DQAGPE F A B NPTS2 POINTS EPSABS EPSREL LENIW LENW v)) = 6
      \<and> NEVAL (fst (DQAGP DQAGPE F A B NPTS2 POINTS EPSABS EPSREL LENIW LENW v)) = 0
      \<and> \<not> list_ex is_driver_call
            (snd (DQAGP DQAGPE F A B NPTS2 POINTS EPSABS EPSREL LENIW LENW v)))
   \<and> (2 \<le> sint NPTS2 \<longrightarrow>
        dimension_check_fails LENIW LENW NPTS2 =
          (LENIW <s 3 * NPTS2 - 2 \<or> LENW <s LENIW * 2 - NPTS2))
   \<and> (2 \<le> sint NPTS2 \<and> 3 * sint NPTS2 - 2 \<le> sint LENIW
        \<and> sint LENIW * 2 - sint NPTS2 \<le> sint LENW \<longrightarrow>
        list_ex is_driver_call
          (snd (DQAGP DQAGPE F A B NPTS2 POINTS EPSABS EPSREL LENIW LENW v)))"
proof (intro conjI impI)
  assume "sint NPTS2 < 2"
  then have "dimension_check_fails LENIW LENW NPTS2"
    by (simp add: dimension_check_fails_def word_sless_alt)
  then have eq: "DQAGP DQAGPE F A B NPTS2 POINTS EPSABS EPSREL LENIW LENW v =
      (v\<lparr>IER := 6, NEVAL := 0, LAST := 0, RESULT := 0, ABSERR := 0\<rparr>,
       [CALL_XERROR ''ABNORMAL RETURN FROM DQAGP'' 26 6 (Some 1)])"
    by (rule DQAGP_rejected)
  show "IER (fst (DQAGP DQAGPE F A B NPTS2 POINTS EPSABS EPSREL LENIW LENW v)) = 6"
    by (simp add: eq)
  show "NEVAL (fst (DQAGP DQAGPE F A B NPTS2 POINTS EPSABS EPSREL LENIW LENW v)) = 0"
    by (simp add: eq)
  show "\<not> list_ex is_driver_call
            (snd (DQAGP DQAGPE F A B NPTS2 POINTS EPSABS EPSREL LENIW LENW v))"
    by (simp add: eq)
next
  assume "2 \<le> sint NPTS2"
  then show "dimension_check_fails LENIW LENW NPTS2 =
          (LENIW <s 3 * NPTS2 - 2 \<or> LENW <s LENIW * 2 - NPTS2)"
    by (simp add: dimension_check_fails_def word_sless_alt)
next
  assume "2 \<le> sint NPTS2 \<and> 3 * sint NPTS2 - 2 \<le> sint LENIW
        \<and> sint LENIW * 2 - sint NPTS2 \<le> sint LENW"
  then have "\<not> dimension_check_fails LENIW LENW NPTS2"
    by (intro check_passes) simp_all
  then show "list_ex is_driver_call
          (snd (DQAGP DQAGPE F A B NPTS2 POINTS EPSABS EPSREL LENIW LENW v))"
    by (simp add: DQAGP_accepted Let_def)
qed

theorem DQAGP_NPTS2_check_witness:
  "sint (1::INTEGER) < 2
   \<and> IER (fst (DQAGP full_driver constant_one 0 1 1 [0] 0 (1/1000) 10 19 unset)) = 6
   \<and> snd (DQAGP full_driver constant_one 0 1 1 [0] 0 (1/1000) 10 19 unset) =
       [CALL_XERROR ''ABNORMAL RETURN FROM DQAGP'' 26 6 (Some 1)]
   \<and> 2 \<le> sint (4::INTEGER) \<and> 3 * sint (4::INTEGER) - 2 \<le> sint (10::INTEGER)
   \<and> sint (10::INTEGER) * 2 - sint (4::INTEGER) \<le> sint (16::INTEGER)
   \<and> \<not> dimension_check_fails 10 16 4
   \<and> list_ex is_driver_call
       (snd (DQAGP full_driver constant_one 0 1 4 [1/4, 1/2, 0, 0] 0 (1/1000) 10 16 unset))"
  using DQAGP_NPTS2_check [of 1 full_driver constant_one 0 1 "[0]" 0 "1/1000" 10 19 unset]
    DQAGP_NPTS2_check [of 4 full_driver constant_one 0 1 "[1/4, 1/2, 0, 0]" 0 "1/1000" 10 16 unset]
  by (simp add: DQAGP_def dimension_check_fails_def label_10_def word_sless_alt)

text \<open>
  Claim C9. When the dimensioning validation passes (\<open>LENIW \<ge> 3*NPTS2-2\<close> and
  \<open>NPTS2 \<ge> 2\<close>), the capacity \<open>LIMIT = (LENIW-NPTS2)/2\<close> computed by integer division is
  at least \<open>NPTS2-1\<close>: the arena holds one record for each initial segment.
\<close>

theorem LIMIT_holds_initial_segments:
  assumes "3 * sint NPTS2 - 2 \<le> sint LENIW" and "2 \<le> sint NPTS2"
  shows "sint NPTS2 - 1 \<le> sint (LIMIT LENIW NPTS2)"
proof -
  have "sint (LIMIT LENIW NPTS2) = (sint LENIW - sint NPTS2) div 2"
    using assms by (rule LIMIT_in_range(2))
  moreover have "sint NPTS2 - 1 \<le> (sint LENIW - sint NPTS2) div 2" using assms by arith
  ultimately show ?thesis by simp
qed

theorem LIMIT_holds_initial_segments_witness:
  "3 * sint (4::INTEGER) - 2 \<le> sint (10::INTEGER) \<and> 2 \<le> sint (4::INTEGER)
   \<and> sint (4::INTEGER) - 1 \<le> sint (LIMIT 10 4) \<and> LIMIT 10 4 = 3"
  using LIMIT_holds_initial_segments [of 4 10]
  by (simp add: LIMIT_def fortran_div_def)

section \<open>Properties of the wrapper on top of the driver\<close>

lemma DQAGPE_spec_invalid_accuracy:
  assumes "invalid_accuracy_request epmach EPSABS EPSREL"
  shows "DQAGPE_spec epmach eng F A B NPTS2 POINTS EPSABS EPSREL lmt sl v =
           invalid_input A B sl v"
  using assms by (simp add: DQAGPE_spec_def)

lemma invalid_input_scalars:
  "IER (invalid_input A B sl v) = 6 \<and> RESULT (invalid_input A B sl v) = 0
   \<and> ABSERR (invalid_input A B sl v) = 0 \<and> NEVAL (invalid_input A B sl v) = 0
   \<and> LAST (invalid_input A B sl v) = 0"
  by (simp add: invalid_input_def split: prod.splits)

text \<open>
  Claim C4. For every call with \<open>epsabs \<le> 0\<close> and
  \<open>epsrel < max(50 * machine_epsilon, 0.5e-28)\<close> the integration ends at once with
  \<open>IER = 6\<close> and performs no integration: RESULT, ABSERR, NEVAL and LAST are zero, and the
  outcome depends neither on the adaptive loop nor on the integrand.
\<close>

theorem invalid_accuracy_request_rejected:
  assumes "EPSABS \<le> 0" and "EPSREL < max (50 * epmach) (5 / 10 ^ 29)"
  shows "IER (fst (DQAGP (DQAGPE_spec epmach eng) F A B NPTS2 POINTS EPSABS EPSREL
                     LENIW LENW v)) = 6
       \<and> RESULT (fst (DQAGP (DQAGPE_spec epmach eng) F A B NPTS2 POINTS EPSABS EPSREL
                        LENIW LENW v)) = 0
       \<and> ABSERR (fst (DQAGP (DQAGPE_spec epmach eng) F A B NPTS2 POINTS EPSABS EPSREL
                        LENIW LENW v)) = 0
       \<and> NEVAL (fst (DQAGP (DQAGPE_spec epmach eng) F A B NPTS2 POINTS EPSABS EPSREL
                       LENIW LENW v)) = 0
       \<and> LAST (fst (DQAGP (DQAGPE_spec epmach eng) F A B NPTS2 POINTS EPSABS EPSREL
                      LENIW LENW v)) = 0
       \<and> DQAGP (DQAGPE_spec epmach eng) F A B NPTS2 POINTS EPSABS EPSREL LENIW LENW v =
           DQAGP (DQAGPE_spec epmach eng') F' A B NPTS2 POINTS EPSABS EPSREL LENIW LENW v"
proof -
  have inv: "invalid_accuracy_request epmach EPSABS EPSREL"
    using assms by (simp add: invalid_accuracy_request_def)
  show ?thesis
  proof (cases "dimension_check_fails LENIW LENW NPTS2")
    case True
    then show ?thesis by (simp add: DQAGP_rejected)
  next
    case False
    then show ?thesis
      by (simp add: DQAGP_accepted Let_def DQAGPE_spec_invalid_accuracy [OF inv]
          invalid_input_scalars)
  qed
qed

theorem invalid_accuracy_request_rejected_witness:
  "(0::real) \<le> 0 \<and> (1 / 10 ^ 15 :: real) < max (50 * (1 / 2 ^ 52)) (5 / 10 ^ 29)
   \<and> \<not> dimension_check_fails 10 16 4
   \<and> IER (fst (DQAGP (DQAGPE_spec (1 / 2 ^ 52) panel_engine) constant_one 0 1 4 [1/4, 1/2, 0, 0]
                 0 (1 / 10 ^ 15) 10 16 unset)) = 6
   \<and> NEVAL (fst (DQAGP (DQAGPE_spec (1 / 2 ^ 52) panel_engine) constant_one 0 1 4 [1/4, 1/2, 0, 0]
                   0 (1 / 10 ^ 15) 10 16 unset)) = 0"
  using invalid_accuracy_request_rejected
    [of 0 "1 / 10 ^ 15" "1 / 2 ^ 52" panel_engine constant_one 0 1 4 "[1/4, 1/2, 0, 0]" 10 16 unset
      panel_engine constant_one]
  by (simp add: dimension_check_fails_def word_sless_alt)

lemma sort_mset_cong:
  fixes xs ys :: "real list"
  assumes "mset xs = mset ys"
  shows "sort xs = sort ys"
  by (rule properties_for_sort) (simp_all add: assms)

lemma list_ex_mset_cong:
  assumes "mset xs = mset ys"
  shows "list_ex P xs = list_ex P ys"
proof -
  have "set xs = set ys" using assms by (rule mset_eq_setD)
  then show ?thesis by (simp add: list_ex_iff)
qed

lemma DQAGPE_spec_permutation:
  assumes "mset (break_points NPTS2 POINTS) = mset (break_points NPTS2 POINTS')"
  shows "DQAGPE_spec epmach eng F A B NPTS2 POINTS EPSABS EPSREL lmt sl v =
         DQAGPE_spec epmach eng F A B NPTS2 POINTS' EPSABS EPSREL lmt sl v"
proof -
  have "mset (A # B # break_points NPTS2 POINTS) =
      mset (A # B # break_points NPTS2 POINTS')"
    using assms by simp
  then have "sort (A # B # break_points NPTS2 POINTS) =
      sort (A # B # break_points NPTS2 POINTS')"
    by (rule sort_mset_cong)
  moreover have "list_ex (\<lambda>p. p < A \<or> B < p) (break_points NPTS2 POINTS) =
      list_ex (\<lambda>p. p < A \<or> B < p) (break_points NPTS2 POINTS')"
    using assms by (rule list_ex_mset_cong)
  ultimately show ?thesis by (simp add: DQAGPE_spec_def Let_def)
qed

lemma break_points_4: "break_points 4 [p, q, r, s] = [p, q]"
  by (simp add: break_points_def numeral_2_eq_2)

text \<open>
  Claim C6. For two break-point sequences that are permutations of each other, all
  other arguments being equal, the integrator returns identical outputs (RESULT,
  ABSERR, NEVAL, LAST, IER and everything else it returns): the break points are sorted
  ascending before the adaptive loop sees them.
\<close>

theorem break_point_order_irrelevant:
  assumes "mset (break_points NPTS2 POINTS) = mset (break_points NPTS2 POINTS')"
  shows "DQAGP (DQAGPE_spec epmach eng) F A B NPTS2 POINTS EPSABS EPSREL LENIW LENW v =
         DQAGP (DQAGPE_spec epmach eng) F A B NPTS2 POINTS' EPSABS EPSREL LENIW LENW v"
  by (simp add: DQAGP_def Let_def DQAGPE_spec_permutation [OF assms])

theorem break_point_order_irrelevant_witness:
  "mset (break_points 4 [3/4, 1/2, 0, 0]) = mset (break_points 4 [1/2, 3/4, 0, 0])
   \<and> DQAGP (DQAGPE_spec (1 / 2 ^ 52) panel_engine) constant_one 0 1 4 [3/4, 1/2, 0, 0]
       0 (1 / 10 ^ 10) 10 16 unset =
     DQAGP (DQAGPE_spec (1 / 2 ^ 52) panel_engine) constant_one 0 1 4 [1/2, 3/4, 0, 0]
       0 (1 / 10 ^ 10) 10 16 unset
   \<and> RESULT (fst (DQAGP (DQAGPE_spec (1 / 2 ^ 52) panel_engine) constant_one 0 1 4 [3/4, 1/2, 0, 0]
                    0 (1 / 10 ^ 10) 10 16 unset)) = 1 / 2"
  using break_point_order_irrelevant
    [of 4 "[3/4, 1/2, 0, 0]" "[1/2, 3/4, 0, 0]" "1 / 2 ^ 52" panel_engine constant_one 0 1 0
      "1 / 10 ^ 10" 10 16 unset]
  by (simp add: break_points_4 DQAGP_def dimension_check_fails_def DQAGPE_spec_def
      invalid_accuracy_request_def Let_def word_sless_alt)

section \<open>Abnormal terminations\<close>







section \<open>Properties of the validator\<close>

lemma mustBeNonnegative_isl:
  "isl (mustBeNonnegative nm mv mi x) \<longleftrightarrow> \<not> list_all ge_zero x"
  by (simp add: mustBeNonnegative_def Let_def list_all_iff split: option.splits)

text \<open>
  Claim C10. mustBeNonnegative raises an error if and only if some element of its input
  fails the predicate \<open>x >= 0\<close>. In particular it raises an error for every input that
  contains NaN, although NaN is not negative (\<open>NaN < 0\<close> is false).
\<close>

theorem mustBeNonnegative_raises_iff:
  "(isl (mustBeNonnegative nm mv mi x) \<longleftrightarrow> list_ex (\<lambda>e. \<not> ge_zero e) x)
   \<and> (NaN \<in> set x \<longrightarrow> isl (mustBeNonnegative nm mv mi x))
   \<and> \<not> lt_zero NaN"
proof (intro conjI impI)
  show "isl (mustBeNonnegative nm mv mi x) \<longleftrightarrow> list_ex (\<lambda>e. \<not> ge_zero e) x"
    by (simp add: mustBeNonnegative_isl list_all_iff list_ex_iff)
next
  assume "NaN \<in> set x"
  moreover have "\<not> ge_zero NaN" by simp
  ultimately have "\<not> list_all ge_zero x" unfolding list_all_iff by blast
  then show "isl (mustBeNonnegative nm mv mi x)" by (simp add: mustBeNonnegative_isl)
next
  show "\<not> lt_zero NaN" by simp
qed

theorem mustBeNonnegative_raises_iff_witness:
  "NaN \<in> set [Finite 1, NaN]
   \<and> mustBeNonnegative ''x'' (\<lambda>bad. Some ''NaN'') (\<lambda>ix. ''2'') [Finite 1, NaN] =
       Inl (must_be_nonnegative_values ''x'' 1 ''NaN'')
   \<and> mustBeNonnegative ''x'' (\<lambda>bad. Some ''[]'') (\<lambda>ix. ''[]'')
       [Finite 0, Finite 1, PosInf] = Inr ()"
  using mustBeNonnegative_raises_iff
      [of "''x''" "\<lambda>bad. Some ''NaN''" "\<lambda>ix. ''2''" "[Finite 1, NaN]"]
    mustBeNonnegative_raises_iff
      [of "''x''" "\<lambda>bad. Some ''[]''" "\<lambda>ix. ''[]''" "[Finite 0, Finite 1, PosInf]"]
  by (simp add: mustBeNonnegative_def find_true_def index_by_def upt_conv_Cons)

end
